theory Spec2Isabelle
  imports Main "HOL-Library.Log_Nat"
begin

section \<open>Python floats\<close>

text \<open>
  The scores, thresholds and normalised amounts of the program are Python floats, that is
  IEEE 754 binary64 numbers. A finite binary64 number is a rational, so floats are modelled
  by their value in \<^typ>\<open>rat\<close>; comparisons of floats (and of a float with an int) are then
  the comparisons of \<^typ>\<open>rat\<close>. What is not exact is arithmetic: the result of an
  operation, and the value of a decimal literal, is the exact result rounded to the nearest
  binary64 number, ties to the even significand. \<open>double_round\<close> is that rounding, with a
  significand of 53 bits and the smallest exponent of the format (\<open>-1022\<close>). The largest
  exponent is not modelled: every number the program computes is far below \<open>2 ^ 1024\<close>
  (scores are at most \<open>1.1\<close>, amounts are 256-bit integers divided by \<open>1e18\<close> or \<open>1e9\<close>).
\<close>

definition pow2 :: "int \<Rightarrow> rat" where
  "pow2 e = (if 0 \<le> e then 2 ^ nat e else 1 / 2 ^ nat (- e))"

definition round_half_even :: "rat \<Rightarrow> int" where
  "round_half_even x =
     (let f = \<lfloor>x\<rfloor>; d = x - of_int f
      in if d < 1 / 2 then f
         else if 1 / 2 < d then f + 1
         else if even f then f else f + 1)"

text \<open>For \<open>0 < x\<close>, \<open>ilog2 x\<close> is the exponent \<open>e\<close> with \<open>2 ^ e \<le> x < 2 ^ (e + 1)\<close>.\<close>

definition ilog2 :: "rat \<Rightarrow> int" where
  "ilog2 x =
     (let (n, d) = quotient_of x; e = bitlen n - bitlen d
      in if x < pow2 e then e - 1 else e)"

definition double_round :: "rat \<Rightarrow> rat" where
  "double_round x =
     (if x = 0 then 0
      else let a = \<bar>x\<bar>;
               u = pow2 (max (ilog2 a) (- 1022) - 52);
               r = of_int (round_half_even (a / u)) * u
           in if x < 0 then - r else r)"

text \<open>A decimal literal of the source, such as \<open>0.3\<close>, given by its exact decimal value.\<close>

definition float_lit :: "rat \<Rightarrow> rat" where
  "float_lit q = double_round q"

text \<open>\<open>a + b\<close> and \<open>a / b\<close> on floats; \<open>float(i)\<close> of a Python int.\<close>

definition fadd :: "rat \<Rightarrow> rat \<Rightarrow> rat" where
  "fadd a b = double_round (a + b)"

definition fdiv :: "rat \<Rightarrow> rat \<Rightarrow> rat" where
  "fdiv a b = double_round (a / b)"

definition int_to_float :: "int \<Rightarrow> rat" where
  "int_to_float i = double_round (of_int i)"

section \<open>Strings\<close>

text \<open>
  \<open>str.lower()\<close> and \<open>str.startswith(prefix)\<close>. A Python string is a sequence of code points;
  it is modelled by its UTF-8 bytes. \<open>lower\<close> maps the letters \<open>A\<close> to \<open>Z\<close> to \<open>a\<close> to \<open>z\<close> and
  leaves every other byte alone. Python also lowers letters outside ASCII, but none of them
  becomes one of the ASCII characters \<open>0\<close>, \<open>x\<close>, \<open>a\<close>, \<open>b\<close>, \<open>c\<close>, which is all the program asks
  of a lowered string.
\<close>

definition lower_char :: "char \<Rightarrow> char" where
  "lower_char c =
     (let n = (of_char c :: nat) in if 65 \<le> n \<and> n \<le> 90 then char_of (n + 32) else c)"

definition lower :: "string \<Rightarrow> string" where
  "lower s = map lower_char s"

definition startswith :: "string \<Rightarrow> string \<Rightarrow> bool" where
  "startswith s p = (take (length p) s = p)"

section \<open>Data\<close>

text \<open>
  The dictionary \<open>tx_data\<close> that the listener builds, sends through the queue as JSON and
  the consumer reads back (\<open>tx\<close>): keys \<open>hash\<close>, \<open>from\<close>, \<open>to\<close>, \<open>value\<close>, \<open>gas\<close>, \<open>timestamp\<close>.
  \<open>to\<close> is \<open>None\<close> for a contract creation.
\<close>

record tx =
  tx_hash :: string
  tx_from :: string
  tx_to :: "string option"
  tx_value :: rat
  tx_gas :: rat
  tx_timestamp :: string

text \<open>The dictionary \<open>alert\<close> of \<open>consume_tx\<close>: keys \<open>tx_hash\<close>, \<open>risk_score\<close>, \<open>from\<close>, \<open>to\<close>, \<open>timestamp\<close>.\<close>

record alert =
  alert_tx_hash :: string
  risk_score :: rat
  alert_from :: string
  alert_to :: "string option"
  alert_timestamp :: string

text \<open>
  The transaction as the node returns it from \<open>w3.eth.get_transaction\<close>: the fields the
  listener reads. \<open>raw_hash\<close> is the text \<open>tx["hash"].hex()\<close>; \<open>raw_value\<close> and
  \<open>raw_gasPrice\<close> are Python ints (wei).
\<close>

record raw_tx =
  raw_hash :: string
  raw_from :: string
  raw_to :: "string option"
  raw_value :: int
  raw_gasPrice :: int

text \<open>
  The lines given to \<open>log_message\<close>. The source formats them as text (a fixed phrase, the
  hash, the score); a line is modelled by which phrase it is and what was formatted into it.
\<close>

datatype log_line =
    Listening_started
  | Consumer_started
  | Enqueued string
  | Consumed string rat

datatype error =
    RequestValidationError
  | TransactionNotFound
  | ProviderError

text \<open>
  The globals \<open>latest_alerts\<close> and \<open>transaction_logs\<close>, and the Redis list \<open>tx_queue\<close> (its
  head first). The queue holds the JSON text of a \<open>tx_data\<close>; it is modelled by the
  dictionary itself.
\<close>

record pipeline =
  tx_queue :: "tx list"
  latest_alerts :: "alert list"
  transaction_logs :: "log_line list"

definition init :: pipeline where
  "init = \<lparr>tx_queue = [], latest_alerts = [], transaction_logs = []\<rparr>"

section \<open>The scorer\<close>

text \<open>
  \<^verbatim>\<open>
  def simple_risk_score(tx):
      score = 0
      if tx['value'] > 100:
          score += 0.5
      if tx['gas'] > 50:
          score += 0.3
      if tx['from'].lower().startswith("0xabc"):
          score += 0.3
      return min(score, 1.0)
  \<close>
  of \<open>web+Redis+render1.py\<close>. With no rule satisfied the function returns the int \<open>0\<close>,
  which Python compares equal to \<open>0.0\<close>; the model keeps the value.
\<close>

definition simple_risk_score :: "tx \<Rightarrow> rat" where
  "simple_risk_score t =
     (let score = 0;
          score = (if tx_value t > 100 then fadd score (float_lit (1 / 2)) else score);
          score = (if tx_gas t > 50 then fadd score (float_lit (3 / 10)) else score);
          score = (if startswith (lower (tx_from t)) ''0xabc''
                   then fadd score (float_lit (3 / 10)) else score)
      in min score (float_lit 1))"

text \<open>The function of the same name in \<open>Web+Redis+render.py\<close>, translated on its own.\<close>

definition simple_risk_score_render :: "tx \<Rightarrow> rat" where
  "simple_risk_score_render t =
     (let score = 0;
          score = (if tx_value t > 100 then fadd score (float_lit (1 / 2)) else score);
          score = (if tx_gas t > 50 then fadd score (float_lit (3 / 10)) else score);
          score = (if startswith (lower (tx_from t)) ''0xabc''
                   then fadd score (float_lit (3 / 10)) else score)
      in min score (float_lit 1))"

text \<open>The three conditions of the scorer, named as the specification names them.\<close>

definition rule_value :: "tx \<Rightarrow> bool" where
  "rule_value t = (tx_value t > 100)"

definition rule_gas :: "tx \<Rightarrow> bool" where
  "rule_gas t = (tx_gas t > 50)"

definition rule_from :: "tx \<Rightarrow> bool" where
  "rule_from t = startswith (lower (tx_from t)) ''0xabc''"

section \<open>The bounded log\<close>

text \<open>
  \<^verbatim>\<open>
  def log_message(msg):
      print(msg)
      transaction_logs.insert(0, msg)
      if len(transaction_logs) > 20:
          transaction_logs.pop()
  \<close>
  \<open>pop()\<close> removes the last element, once.
\<close>

definition log_message :: "log_line \<Rightarrow> pipeline \<Rightarrow> pipeline" where
  "log_message msg s =
     (let logs = msg # transaction_logs s
      in s\<lparr>transaction_logs := (if length logs > 20 then butlast logs else logs)\<rparr>)"

section \<open>The queue\<close>

text \<open>
  The Redis commands the program uses on the list \<open>tx_queue\<close>: \<open>LPUSH\<close> inserts at the head,
  \<open>RPOP\<close> removes and returns the last element, or returns nothing when the list is empty.
\<close>

definition lpush :: "'a \<Rightarrow> 'a list \<Rightarrow> 'a list" where
  "lpush x q = x # q"

definition rpop :: "'a list \<Rightarrow> 'a option \<times> 'a list" where
  "rpop q = (if q = [] then (None, q) else (Some (last q), butlast q))"

section \<open>The listener\<close>

text \<open>
  One identifier of a poll, with what the outside world answers while the listener handles
  it: the result of \<open>w3.eth.get_transaction(tx_hash)\<close> (the transaction, or the exception
  raised) and the text of \<open>datetime.utcnow().isoformat()\<close>.
\<close>

record pending =
  ident :: string
  lookup :: "error + raw_tx"
  now :: string

text \<open>
  \<^verbatim>\<open>
  tx_data = {
      "hash": tx["hash"].hex(),
      "from": tx["from"],
      "to": tx["to"],
      "value": tx["value"] / 1e18,
      "gas": tx["gasPrice"] / 1e9,
      "timestamp": datetime.utcnow().isoformat()
  }
  \<close>
  An int divided by a float is converted to a float first.
\<close>

definition tx_data :: "raw_tx \<Rightarrow> string \<Rightarrow> tx" where
  "tx_data r ts =
     \<lparr>tx_hash = raw_hash r,
      tx_from = raw_from r,
      tx_to = raw_to r,
      tx_value = fdiv (int_to_float (raw_value r)) (float_lit (10 ^ 18)),
      tx_gas = fdiv (int_to_float (raw_gasPrice r)) (float_lit (10 ^ 9)),
      tx_timestamp = ts\<rparr>"

text \<open>
  The body of the \<open>for\<close> loop of \<open>listen_pending_tx\<close> in \<open>web+Redis+render1.py\<close>:
  \<^verbatim>\<open>
  try:
      tx = w3.eth.get_transaction(tx_hash)
      tx_data = {...}
      await redis_conn.lpush("tx_queue", json.dumps(tx_data))
      log_message(f"... {tx_data['hash']}")
  except Exception:
      continue
  \<close>
\<close>

definition listen_one :: "pending \<Rightarrow> pipeline \<Rightarrow> pipeline" where
  "listen_one p s =
     (case lookup p of
        Inl e \<Rightarrow> s
      | Inr r \<Rightarrow>
          (let d = tx_data r (now p);
               s = s\<lparr>tx_queue := lpush d (tx_queue s)\<rparr>
           in log_message (Enqueued (tx_hash d)) s))"

text \<open>\<open>for tx_hash in tx_hashes: ...\<close>\<close>

fun listen_batch :: "pending list \<Rightarrow> pipeline \<Rightarrow> pipeline" where
  "listen_batch [] s = s"
| "listen_batch (p # ps) s = listen_batch ps (listen_one p s)"

text \<open>
  \<^verbatim>\<open>
  while True:
      tx_hashes = pending_filter.get_new_entries()
      for tx_hash in tx_hashes:
          ...
      await asyncio.sleep(1)
  \<close>
  The loop has no exit. Its first \<open>n\<close> rounds are run on the list of the \<open>n\<close> answers of
  \<open>get_new_entries()\<close>: a batch, or the exception it raises, which nothing catches and
  which ends the loop (\<open>Inl\<close>). \<open>Inr s\<close> is the state after \<open>n\<close> rounds, the loop still running.
\<close>

fun listen_loop :: "(error + pending list) list \<Rightarrow> pipeline \<Rightarrow> error + pipeline" where
  "listen_loop [] s = Inr s"
| "listen_loop (Inl e # polls) s = Inl e"
| "listen_loop (Inr batch # polls) s = listen_loop polls (listen_batch batch s)"

text \<open>\<open>listen_pending_tx\<close>, once the pending filter exists: the start line, then the loop.\<close>

definition listen_pending_tx :: "(error + pending list) list \<Rightarrow> pipeline \<Rightarrow> error + pipeline" where
  "listen_pending_tx polls s = listen_loop polls (log_message Listening_started s)"

text \<open>The same loop body in \<open>Web+Redis+render.py\<close>, which prints instead of logging.\<close>

definition listen_one_render :: "pending \<Rightarrow> pipeline \<Rightarrow> pipeline" where
  "listen_one_render p s =
     (case lookup p of
        Inl e \<Rightarrow> s
      | Inr r \<Rightarrow> s\<lparr>tx_queue := lpush (tx_data r (now p)) (tx_queue s)\<rparr>)"

text \<open>Whether the lookup of an identifier succeeded.\<close>

definition resolved :: "pending \<Rightarrow> bool" where
  "resolved p = (case lookup p of Inl e \<Rightarrow> False | Inr r \<Rightarrow> True)"

section \<open>The consumer\<close>

text \<open>
  \<^verbatim>\<open>
  alert = {
      "tx_hash": tx["hash"],
      "risk_score": score,
      "from": tx["from"],
      "to": tx["to"],
      "timestamp": tx["timestamp"]
  }
  \<close>
\<close>

definition alert_of :: "tx \<Rightarrow> rat \<Rightarrow> alert" where
  "alert_of t score =
     \<lparr>alert_tx_hash = tx_hash t,
      risk_score = score,
      alert_from = tx_from t,
      alert_to = tx_to t,
      alert_timestamp = tx_timestamp t\<rparr>"

text \<open>
  One round of the \<open>while True\<close> loop of \<open>consume_tx\<close> in \<open>web+Redis+render1.py\<close>:
  \<^verbatim>\<open>
  tx_json = await redis_conn.rpop("tx_queue")
  if tx_json:
      tx = json.loads(tx_json)
      score = simple_risk_score(tx)
      log_message(f"... {tx['hash']} | ... {score}")
      if score >= 0.3:
          alert = {...}
          latest_alerts.insert(0, alert)
          latest_alerts = latest_alerts[:10]
  else:
      await asyncio.sleep(0.5)
  \<close>
\<close>

definition consume_tx_step :: "pipeline \<Rightarrow> pipeline" where
  "consume_tx_step s =
     (case rpop (tx_queue s) of
        (None, q) \<Rightarrow> s
      | (Some t, q) \<Rightarrow>
          (let s = s\<lparr>tx_queue := q\<rparr>;
               score = simple_risk_score t;
               s = log_message (Consumed (tx_hash t) score) s
           in if score \<ge> float_lit (3 / 10)
              then s\<lparr>latest_alerts := take 10 (alert_of t score # latest_alerts s)\<rparr>
              else s))"

text \<open>
  The same round in \<open>Web+Redis+render.py\<close>: it prints instead of logging, and keeps a
  record \<open>if score >= 0.8\<close>.
\<close>

definition consume_tx_step_render :: "pipeline \<Rightarrow> pipeline" where
  "consume_tx_step_render s =
     (case rpop (tx_queue s) of
        (None, q) \<Rightarrow> s
      | (Some t, q) \<Rightarrow>
          (let s = s\<lparr>tx_queue := q\<rparr>;
               score = simple_risk_score_render t
           in if score \<ge> float_lit (4 / 5)
              then s\<lparr>latest_alerts := take 10 (alert_of t score # latest_alerts s)\<rparr>
              else s))"

section \<open>The queries\<close>

text \<open>
  \<^verbatim>\<open>
  @app.get("/alerts")
  async def get_alerts(threshold: float = Query(0.8, ge=0.0, le=1.0)):
      filtered_alerts = [a for a in latest_alerts if a["risk_score"] >= threshold]
      return JSONResponse(content={"threshold": threshold, "alerts": filtered_alerts})
  \<close>
  The argument is the query parameter as the framework parsed it, \<open>None\<close> when the request
  has none. \<open>Query(0.8, ge=0.0, le=1.0)\<close> makes the framework use \<open>0.8\<close> for a missing
  parameter and answer a parameter below \<open>0.0\<close> or above \<open>1.0\<close> with a validation error
  (status 422) without calling the function. A handler returns its response and leaves
  the globals as they are; the state is returned to say so.
\<close>

record alerts_response =
  threshold :: rat
  alerts :: "alert list"

definition get_alerts :: "rat option \<Rightarrow> pipeline \<Rightarrow> (error + alerts_response) \<times> pipeline" where
  "get_alerts param s =
     (let threshold = (case param of None \<Rightarrow> float_lit (4 / 5) | Some t \<Rightarrow> t)
      in if float_lit 0 \<le> threshold \<and> threshold \<le> float_lit 1
         then (Inr \<lparr>threshold = threshold,
                     alerts = filter (\<lambda>a. risk_score a \<ge> threshold) (latest_alerts s)\<rparr>, s)
         else (Inl RequestValidationError, s))"

text \<open>
  \<^verbatim>\<open>
  @app.get("/logs")
  async def get_logs():
      return JSONResponse(content={"logs": transaction_logs})
  \<close>
\<close>

definition get_logs :: "pipeline \<Rightarrow> log_line list \<times> pipeline" where
  "get_logs s = (transaction_logs s, s)"

text \<open>
  \<open>Web+Redis+render.py\<close> has no \<open>/logs\<close>, and its \<open>/alerts\<close> takes no parameter:
  \<^verbatim>\<open>
  @app.get("/alerts")
  async def get_alerts():
      return JSONResponse(content=latest_alerts)
  \<close>
\<close>

definition get_alerts_render :: "pipeline \<Rightarrow> alert list \<times> pipeline" where
  "get_alerts_render s = (latest_alerts s, s)"

section \<open>Runs of the program\<close>

text \<open>
  The listener, the consumer and the request handlers run interleaved. A run is a list of
  the actions that change or read the shared state, each taken as a whole: the listener
  handling one identifier, a push on the queue and a call of \<open>log_message\<close> on their own
  (the listener logs after its \<open>await\<close> of the push, so that a consumer round may come
  between the two; the start lines of both loops are calls of \<open>log_message\<close> too), a round
  of the consumer, a request.
\<close>

datatype action =
    Listen pending
  | Push tx
  | Log log_line
  | Consume
  | GetAlerts "rat option"
  | GetLogs

fun step :: "action \<Rightarrow> pipeline \<Rightarrow> pipeline" where
  "step (Listen p) s = listen_one p s"
| "step (Push t) s = s\<lparr>tx_queue := lpush t (tx_queue s)\<rparr>"
| "step (Log m) s = log_message m s"
| "step Consume s = consume_tx_step s"
| "step (GetAlerts param) s = snd (get_alerts param s)"
| "step GetLogs s = snd (get_logs s)"

definition run :: "action list \<Rightarrow> pipeline \<Rightarrow> pipeline" where
  "run acts s = fold step acts s"

text \<open>The runs of \<open>Web+Redis+render.py\<close>.\<close>

datatype action_render =
    Listen_render pending
  | Push_render tx
  | Consume_render
  | GetAlerts_render

fun step_render :: "action_render \<Rightarrow> pipeline \<Rightarrow> pipeline" where
  "step_render (Listen_render p) s = listen_one_render p s"
| "step_render (Push_render t) s = s\<lparr>tx_queue := lpush t (tx_queue s)\<rparr>"
| "step_render Consume_render s = consume_tx_step_render s"
| "step_render GetAlerts_render s = snd (get_alerts_render s)"

definition run_render :: "action_render list \<Rightarrow> pipeline \<Rightarrow> pipeline" where
  "run_render acts s = fold step_render acts s"

text \<open>Every cached alert has a score of at least the float \<open>0.3\<close>.\<close>

definition alerts_inv :: "pipeline \<Rightarrow> bool" where
  "alerts_inv s = list_all (\<lambda>a. float_lit (3 / 10) \<le> risk_score a) (latest_alerts s)"


text \<open>
  Popping \<open>n\<close> times, the popped elements in the order they come out (the consumer's loop
  seen from the queue alone).
\<close>

fun rpop_all :: "nat \<Rightarrow> 'a list \<Rightarrow> 'a list" where
  "rpop_all 0 q = []"
| "rpop_all (Suc n) q =
     (case rpop q of (None, q') \<Rightarrow> [] | (Some x, q') \<Rightarrow> x # rpop_all n q')"

text \<open>
  Every alert cached by \<open>Web+Redis+render.py\<close> has a score of at least the float \<open>0.8\<close>.
\<close>

definition alerts_inv_render :: "pipeline \<Rightarrow> bool" where
  "alerts_inv_render s = list_all (\<lambda>a. float_lit (4 / 5) \<le> risk_score a) (latest_alerts s)"

section \<open>Example inputs\<close>

text \<open>
  Concrete records on which the theorems below are instantiated. \<open>tx_all_rules\<close> is the
  record \<open>{value: 150, gas: 60, from: "0xABC123", hash: "0x1"}\<close> of the specification's
  end-to-end property; \<open>tx_no_rule\<close> sits on the boundary of the two numeric rules;
  \<open>tx_gas_only\<close> satisfies the gas rule alone.
\<close>

definition tx_all_rules :: tx where
  "tx_all_rules =
     \<lparr>tx_hash = ''0x1'', tx_from = ''0xABC123'', tx_to = Some ''0x00'', tx_value = 150,
      tx_gas = 60, tx_timestamp = ''2024-01-01T00:00:00''\<rparr>"

definition tx_no_rule :: tx where
  "tx_no_rule =
     \<lparr>tx_hash = ''0x2'', tx_from = ''0xdef456'', tx_to = None, tx_value = 100,
      tx_gas = 50, tx_timestamp = ''2024-01-01T00:00:01''\<rparr>"

definition tx_gas_only :: tx where
  "tx_gas_only =
     \<lparr>tx_hash = ''0x3'', tx_from = ''0xdef456'', tx_to = None, tx_value = 1,
      tx_gas = 51, tx_timestamp = ''2024-01-01T00:00:02''\<rparr>"

text \<open>
  A run from the start of the program: the three records are pushed, then consumed.
\<close>

definition pipeline_example :: pipeline where
  "pipeline_example =
     run [Push tx_all_rules, Push tx_gas_only, Push tx_no_rule, Consume, Consume, Consume] init"

text \<open>
  Two transactions as the node returns them (\<open>150\<close> ether at \<open>60\<close> gwei, which the listener
  turns into \<open>tx_all_rules\<close>, and an amount that is not a whole number of ether), and a
  batch of three identifiers of which the second cannot be resolved.
\<close>

definition raw_example :: raw_tx where
  "raw_example =
     \<lparr>raw_hash = ''0x1'', raw_from = ''0xABC123'', raw_to = Some ''0x00'',
      raw_value = 150000000000000000000, raw_gasPrice = 60000000000\<rparr>"

definition raw_example2 :: raw_tx where
  "raw_example2 =
     \<lparr>raw_hash = ''0x4'', raw_from = ''0xdef456'', raw_to = None,
      raw_value = 123456789012345678901, raw_gasPrice = 51000000000\<rparr>"

definition batch_example :: "pending list" where
  "batch_example =
     [\<lparr>ident = ''0x1'', lookup = Inr raw_example, now = ''2024-01-01T00:00:00''\<rparr>,
      \<lparr>ident = ''0x5'', lookup = Inl TransactionNotFound, now = ''2024-01-01T00:00:03''\<rparr>,
      \<lparr>ident = ''0x4'', lookup = Inr raw_example2, now = ''2024-01-01T00:00:04''\<rparr>]"

text \<open>The example run, with two more records waiting in the queue.\<close>

definition queued_example :: pipeline where
  "queued_example = run [Push tx_no_rule, Push tx_gas_only] pipeline_example"

section \<open>Float constants of the scorer\<close>

lemma float_lit_half: "float_lit (1 / 2) = 1 / 2"
  by code_simp

lemma float_lit_one: "float_lit 1 = 1"
  by code_simp

lemma float_lit_03: "float_lit (3 / 10) = 5404319552844595 / 18014398509481984"
  by code_simp

lemma float_lit_08: "float_lit (4 / 5) = 3602879701896397 / 4503599627370496"
  by code_simp

lemma fadd_0_05: "fadd 0 (1 / 2) = 1 / 2"
  by code_simp

lemma fadd_0_03:
  "fadd 0 (5404319552844595 / 18014398509481984) = 5404319552844595 / 18014398509481984"
  by code_simp

lemma fadd_05_03:
  "fadd (1 / 2) (5404319552844595 / 18014398509481984) = 3602879701896397 / 4503599627370496"
  by code_simp

lemma fadd_03_03:
  "fadd (5404319552844595 / 18014398509481984) (5404319552844595 / 18014398509481984)
     = 5404319552844595 / 9007199254740992"
  by code_simp

lemma fadd_08_03:
  "fadd (3602879701896397 / 4503599627370496) (5404319552844595 / 18014398509481984)
     = 2476979795053773 / 2251799813685248"
  by code_simp

lemmas score_consts =
  float_lit_half float_lit_one float_lit_03 float_lit_08
  fadd_0_05 fadd_0_03 fadd_05_03 fadd_03_03 fadd_08_03

text \<open>The value of the scorer for each combination of the three rules.\<close>

lemma simple_risk_score_table:
  "simple_risk_score t =
     (if rule_value t
      then (if rule_gas t
            then (if rule_from t then 1 else 3602879701896397 / 4503599627370496)
            else (if rule_from t then 3602879701896397 / 4503599627370496 else 1 / 2))
      else (if rule_gas t
            then (if rule_from t then 5404319552844595 / 9007199254740992
                  else 5404319552844595 / 18014398509481984)
            else (if rule_from t then 5404319552844595 / 18014398509481984 else 0)))"
  unfolding simple_risk_score_def rule_value_def rule_gas_def rule_from_def Let_def
  by (simp add: score_consts)



lemma float_lit_zero: "float_lit 0 = 0"
  by code_simp

lemma rules_tx_all_rules: "rule_value tx_all_rules \<and> rule_gas tx_all_rules \<and> rule_from tx_all_rules"
  by code_simp

lemma rules_tx_no_rule: "\<not> rule_value tx_no_rule \<and> \<not> rule_gas tx_no_rule \<and> \<not> rule_from tx_no_rule"
  by code_simp

lemma rules_tx_gas_only: "\<not> rule_value tx_gas_only \<and> rule_gas tx_gas_only \<and> \<not> rule_from tx_gas_only"
  by code_simp

lemma pipeline_example_alerts:
  "latest_alerts pipeline_example =
     [alert_of tx_gas_only (5404319552844595 / 18014398509481984), alert_of tx_all_rules 1]"
  by code_simp

section \<open>The scorer: extreme values, monotonicity, the two versions\<close>

text \<open>
  C2. A record with \<open>value > 100\<close>, \<open>gas > 50\<close> and a \<open>from\<close> whose lowercase form starts with
  \<open>0xabc\<close> scores exactly \<open>1.0\<close>; a record that satisfies none of the three conditions scores
  exactly \<open>0\<close>. (The capped sum is \<open>min(1.1, 1.0)\<close>, the three additions being float additions.)
\<close>

theorem simple_risk_score_all_or_none:
  "(tx_value t > 100 \<and> tx_gas t > 50 \<and> startswith (lower (tx_from t)) ''0xabc''
      \<longrightarrow> simple_risk_score t = 1)
   \<and> (\<not> tx_value t > 100 \<and> \<not> tx_gas t > 50 \<and> \<not> startswith (lower (tx_from t)) ''0xabc''
      \<longrightarrow> simple_risk_score t = 0)"
  by (simp add: simple_risk_score_table rule_value_def rule_gas_def rule_from_def)

theorem simple_risk_score_all_or_none_witness:
  "(tx_value tx_all_rules > 100 \<and> tx_gas tx_all_rules > 50
      \<and> startswith (lower (tx_from tx_all_rules)) ''0xabc'')
   \<and> simple_risk_score tx_all_rules = 1
   \<and> (\<not> tx_value tx_no_rule > 100 \<and> \<not> tx_gas tx_no_rule > 50
      \<and> \<not> startswith (lower (tx_from tx_no_rule)) ''0xabc'')
   \<and> simple_risk_score tx_no_rule = 0"
  using simple_risk_score_all_or_none [of tx_all_rules]
        simple_risk_score_all_or_none [of tx_no_rule]
        rules_tx_all_rules rules_tx_no_rule
  by (simp add: rule_value_def rule_gas_def rule_from_def)

text \<open>
  C6. If every scoring rule that holds of a first record holds of a second one, the second
  record's score is at least the first's; and no score exceeds \<open>1.0\<close>.
\<close>

theorem simple_risk_score_monotone:
  "((rule_value t1 \<longrightarrow> rule_value t2) \<and> (rule_gas t1 \<longrightarrow> rule_gas t2)
      \<and> (rule_from t1 \<longrightarrow> rule_from t2)
      \<longrightarrow> simple_risk_score t1 \<le> simple_risk_score t2)
   \<and> simple_risk_score t \<le> 1"
  by (simp add: simple_risk_score_table)

theorem simple_risk_score_monotone_witness:
  "(\<not> rule_value tx_gas_only \<and> rule_gas tx_gas_only \<and> \<not> rule_from tx_gas_only)
   \<and> (rule_value tx_all_rules \<and> rule_gas tx_all_rules \<and> rule_from tx_all_rules)
   \<and> simple_risk_score tx_gas_only \<le> simple_risk_score tx_all_rules
   \<and> simple_risk_score tx_all_rules \<le> 1"
  using simple_risk_score_monotone [of tx_gas_only tx_all_rules tx_all_rules]
        rules_tx_gas_only rules_tx_all_rules
  by simp

text \<open>
  C10. The scorer of \<open>Web+Redis+render.py\<close> and the scorer of \<open>web+Redis+render1.py\<close> return
  the same value on every record.
\<close>

theorem simple_risk_score_versions_agree:
  "simple_risk_score_render t = simple_risk_score t"
  by (simp add: simple_risk_score_render_def simple_risk_score_def)

section \<open>The query for alerts\<close>

text \<open>
  C1. For every state of the cache and every threshold \<open>t\<close> with \<open>0 \<le> t \<le> 1\<close>, \<open>get_alerts\<close>
  answers with \<open>t\<close> and with exactly the cached alerts of score at least \<open>t\<close>, in the order
  of the cache; without a threshold it answers as for the float \<open>0.8\<close>.
\<close>

theorem get_alerts_filtered:
  "(0 \<le> t \<and> t \<le> 1 \<longrightarrow>
      get_alerts (Some t) s =
        (Inr \<lparr>threshold = t, alerts = filter (\<lambda>a. t \<le> risk_score a) (latest_alerts s)\<rparr>, s))
   \<and> get_alerts None s = get_alerts (Some (float_lit (4 / 5))) s
   \<and> float_lit (4 / 5) = 3602879701896397 / 4503599627370496"
  by (simp add: get_alerts_def float_lit_zero float_lit_one float_lit_08)

theorem get_alerts_filtered_witness:
  "(0::rat) \<le> 1 / 2 \<and> (1::rat) / 2 \<le> 1
   \<and> get_alerts (Some (1 / 2)) pipeline_example =
        (Inr \<lparr>threshold = 1 / 2, alerts = [alert_of tx_all_rules 1]\<rparr>, pipeline_example)"
  using get_alerts_filtered [of "1 / 2" pipeline_example]
  by (simp add: pipeline_example_alerts alert_of_def)

text \<open>
  C4. A threshold below \<open>0\<close> or above \<open>1\<close> (such as \<open>1.1\<close>) is answered with the validation
  error, and the state, the cache in particular, is as it was before the request.
\<close>

theorem get_alerts_rejects:
  "t < 0 \<or> 1 < t \<Longrightarrow> get_alerts (Some t) s = (Inl RequestValidationError, s)"
  by (auto simp add: get_alerts_def float_lit_zero float_lit_one)

theorem get_alerts_rejects_witness:
  "(1::rat) < 11 / 10
   \<and> get_alerts (Some (11 / 10)) pipeline_example = (Inl RequestValidationError, pipeline_example)
   \<and> latest_alerts pipeline_example \<noteq> []"
  using get_alerts_rejects [of "11 / 10" pipeline_example]
  by (simp add: pipeline_example_alerts)

section \<open>The rounding on known values\<close>

text \<open>
  The rounding agrees with CPython on \<open>0.1\<close>, \<open>1/3\<close>, a negative number and two ties, and
  the listener's conversion of \<open>150\<close> ether at \<open>60\<close> gwei is exact.
\<close>

lemma double_round_examples:
  "double_round (1 / 10) = 3602879701896397 / 36028797018963968
   \<and> double_round (1 / 3) = 6004799503160661 / 18014398509481984
   \<and> double_round (- (3 / 10)) = - (5404319552844595 / 18014398509481984)
   \<and> double_round (2 ^ 53 + 1) = 2 ^ 53
   \<and> double_round (2 ^ 53 + 3) = 2 ^ 53 + 4"
  by code_simp

lemma tx_data_raw_example: "tx_data raw_example ''2024-01-01T00:00:00'' = tx_all_rules"
  by code_simp

section \<open>What each operation does to the state\<close>


lemma log_message_alerts [simp]: "latest_alerts (log_message m s) = latest_alerts s"
  by (simp add: log_message_def Let_def)

lemma log_message_queue [simp]: "tx_queue (log_message m s) = tx_queue s"
  by (simp add: log_message_def Let_def)




lemma consume_tx_step_empty: "tx_queue s = [] \<Longrightarrow> consume_tx_step s = s"
  by (simp add: consume_tx_step_def rpop_def)

lemma consume_tx_step_alerts:
  "tx_queue s = q @ [t] \<Longrightarrow>
     latest_alerts (consume_tx_step s) =
       (if float_lit (3 / 10) \<le> simple_risk_score t
        then take 10 (alert_of t (simple_risk_score t) # latest_alerts s)
        else latest_alerts s)"
  by (simp add: consume_tx_step_def rpop_def Let_def)



lemma consume_tx_step_render_alerts:
  "tx_queue s = q @ [t] \<Longrightarrow>
     latest_alerts (consume_tx_step_render s) =
       (if float_lit (4 / 5) \<le> simple_risk_score_render t
        then take 10 (alert_of t (simple_risk_score_render t) # latest_alerts s)
        else latest_alerts s)"
  by (simp add: consume_tx_step_render_def rpop_def Let_def)

lemma consume_tx_step_render_empty: "tx_queue s = [] \<Longrightarrow> consume_tx_step_render s = s"
  by (simp add: consume_tx_step_render_def rpop_def)

lemma listen_one_alerts [simp]: "latest_alerts (listen_one p s) = latest_alerts s"
  by (simp add: listen_one_def Let_def split: sum.splits)

lemma listen_one_render_alerts [simp]: "latest_alerts (listen_one_render p s) = latest_alerts s"
  by (simp add: listen_one_render_def split: sum.splits)


lemma get_alerts_state [simp]: "snd (get_alerts param s) = s"
  by (simp add: get_alerts_def Let_def)

lemma get_logs_state [simp]: "snd (get_logs s) = s"
  by (simp add: get_logs_def)

lemma get_alerts_render_state [simp]: "snd (get_alerts_render s) = s"
  by (simp add: get_alerts_render_def)

lemma queued_example_queue: "tx_queue queued_example = [tx_gas_only] @ [tx_no_rule]"
  by code_simp

lemma queued_example_alerts: "latest_alerts queued_example = latest_alerts pipeline_example"
  by code_simp

lemma queued_example_inv: "alerts_inv queued_example"
  by code_simp

lemma consumed_example: "tx_queue (consume_tx_step queued_example) = [] @ [tx_gas_only]"
  by code_simp

lemma score_tx_no_rule: "simple_risk_score tx_no_rule = 0"
  by code_simp

lemma score_tx_gas_only: "simple_risk_score tx_gas_only = 5404319552844595 / 18014398509481984"
  by code_simp

section \<open>The bounded caches\<close>













section \<open>The consumer's retention rule\<close>

text \<open>
  C5. A round of the consumer that pops the record \<open>t\<close> puts the alert made from \<open>t\<close> in
  front of the alert cache (keeping the first 10) if the score of \<open>t\<close> is at least the float
  \<open>0.3\<close>, and leaves the cache as it is otherwise; a query for alerts before the round, with
  any threshold or none, changes nothing of it. The same holds of \<open>Web+Redis+render.py\<close>
  with the float \<open>0.8\<close>.
\<close>

theorem consume_tx_keeps_iff:
  "tx_queue s = q @ [t] \<Longrightarrow>
     latest_alerts (consume_tx_step s) =
       (if float_lit (3 / 10) \<le> simple_risk_score t
        then take 10 (alert_of t (simple_risk_score t) # latest_alerts s)
        else latest_alerts s)
     \<and> consume_tx_step (snd (get_alerts param s)) = consume_tx_step s
     \<and> latest_alerts (consume_tx_step_render s) =
       (if float_lit (4 / 5) \<le> simple_risk_score_render t
        then take 10 (alert_of t (simple_risk_score_render t) # latest_alerts s)
        else latest_alerts s)
     \<and> consume_tx_step_render (snd (get_alerts_render s)) = consume_tx_step_render s"
  by (simp add: consume_tx_step_alerts consume_tx_step_render_alerts)

theorem consume_tx_keeps_iff_witness:
  "tx_queue queued_example = [tx_gas_only] @ [tx_no_rule]
   \<and> latest_alerts (consume_tx_step queued_example) = latest_alerts queued_example
   \<and> tx_queue (consume_tx_step queued_example) = [] @ [tx_gas_only]
   \<and> latest_alerts (consume_tx_step (consume_tx_step queued_example)) =
       alert_of tx_gas_only (5404319552844595 / 18014398509481984) # latest_alerts queued_example"
  using consume_tx_keeps_iff [OF queued_example_queue]
        consume_tx_keeps_iff [OF consumed_example]
        queued_example_queue consumed_example
  by (simp add: score_tx_no_rule score_tx_gas_only float_lit_03 queued_example_alerts
        pipeline_example_alerts)

section \<open>The scores in the alert cache\<close>

lemma list_all_take: "list_all P xs \<Longrightarrow> list_all P (take n xs)"
  by (auto simp: list_all_iff dest: in_set_takeD)

lemma float_lit_03_le_08: "float_lit (3 / 10) \<le> float_lit (4 / 5)"
  by (simp add: float_lit_03 float_lit_08)

lemma consume_tx_step_inv: "alerts_inv s \<Longrightarrow> alerts_inv (consume_tx_step s)"
proof (cases "tx_queue s" rule: rev_cases)
  case Nil
  assume "alerts_inv s"
  with Nil show ?thesis by (simp add: consume_tx_step_empty)
next
  case (snoc q t)
  assume "alerts_inv s"
  then show ?thesis
    unfolding alerts_inv_def
    by (simp add: consume_tx_step_alerts [OF snoc] list_all_take alert_of_def)
qed

lemma consume_tx_step_render_inv: "alerts_inv s \<Longrightarrow> alerts_inv (consume_tx_step_render s)"
proof (cases "tx_queue s" rule: rev_cases)
  case Nil
  assume "alerts_inv s"
  with Nil show ?thesis by (simp add: consume_tx_step_render_empty)
next
  case (snoc q t)
  assume inv: "alerts_inv s"
  show ?thesis
  proof (cases "float_lit (4 / 5) \<le> simple_risk_score_render t")
    case True
    with float_lit_03_le_08 have "float_lit (3 / 10) \<le> simple_risk_score_render t"
      by (rule order_trans)
    with inv True show ?thesis
      unfolding alerts_inv_def
      by (simp add: consume_tx_step_render_alerts [OF snoc] list_all_take alert_of_def)
  next
    case False
    with inv show ?thesis
      unfolding alerts_inv_def
      by (simp add: consume_tx_step_render_alerts [OF snoc])
  qed
qed

lemma step_inv: "alerts_inv s \<Longrightarrow> alerts_inv (step a s)"
  by (cases a) (simp_all add: consume_tx_step_inv, simp_all add: alerts_inv_def)

lemma step_render_inv: "alerts_inv s \<Longrightarrow> alerts_inv (step_render a s)"
  by (cases a) (simp_all add: consume_tx_step_render_inv, simp_all add: alerts_inv_def)

lemma run_inv: "alerts_inv s \<Longrightarrow> alerts_inv (run acts s)"
  unfolding run_def by (induction acts arbitrary: s) (simp_all add: step_inv)

lemma run_render_inv: "alerts_inv s \<Longrightarrow> alerts_inv (run_render acts s)"
  unfolding run_render_def by (induction acts arbitrary: s) (simp_all add: step_render_inv)

lemma init_inv: "alerts_inv init"
  by (simp add: alerts_inv_def init_def)

lemma inv_nonzero: "alerts_inv s \<Longrightarrow> list_all (\<lambda>a. risk_score a \<noteq> 0) (latest_alerts s)"
  unfolding alerts_inv_def list_all_iff by (auto simp: float_lit_03)

text \<open>
  C9. In every state reached from the start of the program every cached alert has a score
  of at least the float \<open>0.3\<close>, and none has the score \<open>0\<close>; every action (a round of the
  consumer, a step of the listener, a query) preserves this. The same holds of the runs of
  \<open>Web+Redis+render.py\<close>.
\<close>

theorem alerts_score_at_least_retention:
  "alerts_inv (run acts init)
   \<and> list_all (\<lambda>a. risk_score a \<noteq> 0) (latest_alerts (run acts init))
   \<and> (alerts_inv s \<longrightarrow> alerts_inv (step a s))
   \<and> alerts_inv (run_render racts init)
   \<and> (alerts_inv s \<longrightarrow> alerts_inv (step_render ra s))"
  by (simp add: run_inv run_render_inv init_inv step_inv step_render_inv inv_nonzero)

theorem alerts_score_at_least_retention_witness:
  "alerts_inv queued_example
   \<and> alerts_inv (step Consume queued_example)
   \<and> alerts_inv (step_render Consume_render queued_example)
   \<and> latest_alerts queued_example \<noteq> []"
  using alerts_score_at_least_retention [of "[]" queued_example Consume "[]" Consume_render]
        queued_example_inv
  by (simp add: queued_example_alerts pipeline_example_alerts)

section \<open>The listener and failed lookups\<close>

lemma listen_one_failed: "lookup p = Inl e \<Longrightarrow> listen_one p s = s"
  by (simp add: listen_one_def)

lemma listen_batch_append: "listen_batch (ps @ qs) s = listen_batch qs (listen_batch ps s)"
  by (induction ps arbitrary: s) simp_all

lemma listen_batch_resolved: "listen_batch (filter resolved ps) s = listen_batch ps s"
  by (induction ps arbitrary: s)
     (auto simp: resolved_def listen_one_failed split: sum.splits)

lemma listen_loop_polls:
  "listen_loop (map Inr batches) s = Inr (listen_batch (concat batches) s)"
  by (induction batches arbitrary: s) (simp_all add: listen_batch_append)

text \<open>
  C8. An identifier whose lookup raises leaves the state as it is (nothing is pushed,
  nothing is logged) and the rest of its batch is handled as if the identifier were not in
  it; for any number of polls that themselves succeed, the loop is still running after
  them, whatever lookups failed, in the state that the resolved identifiers alone produce.
\<close>

theorem listen_skips_failed_lookup:
  "(lookup p = Inl e \<longrightarrow>
      listen_one p s = s \<and> listen_batch (ps @ p # qs) s = listen_batch (ps @ qs) s)
   \<and> listen_pending_tx (map Inr batches) s =
       Inr (listen_batch (filter resolved (concat batches)) (log_message Listening_started s))"
  by (simp add: listen_one_failed listen_batch_append listen_pending_tx_def listen_loop_polls
        listen_batch_resolved)

theorem listen_skips_failed_lookup_witness:
  "lookup (batch_example ! 1) = Inl TransactionNotFound
   \<and> listen_batch batch_example init = listen_batch [batch_example ! 0, batch_example ! 2] init
   \<and> listen_pending_tx [Inr batch_example, Inr []] init =
       Inr \<lparr>tx_queue = [tx_data raw_example2 ''2024-01-01T00:00:04'', tx_all_rules],
            latest_alerts = [],
            transaction_logs = [Enqueued ''0x4'', Enqueued ''0x1'', Listening_started]\<rparr>"
proof -
  have b: "batch_example = [batch_example ! 0] @ batch_example ! 1 # [batch_example ! 2]"
    by (simp add: batch_example_def)
  have l: "lookup (batch_example ! 1) = Inl TransactionNotFound"
    by (simp add: batch_example_def)
  have e: "listen_pending_tx [Inr batch_example, Inr []] init =
       Inr \<lparr>tx_queue = [tx_data raw_example2 ''2024-01-01T00:00:04'', tx_all_rules],
            latest_alerts = [],
            transaction_logs = [Enqueued ''0x4'', Enqueued ''0x1'', Listening_started]\<rparr>"
    by code_simp
  from listen_skips_failed_lookup
         [of "batch_example ! 1" TransactionNotFound init "[batch_example ! 0]"
             "[batch_example ! 2]" "[]"] l
  have "listen_batch ([batch_example ! 0] @ batch_example ! 1 # [batch_example ! 2]) init
          = listen_batch ([batch_example ! 0] @ [batch_example ! 2]) init"
    by blast
  with b have "listen_batch batch_example init
                 = listen_batch [batch_example ! 0, batch_example ! 2] init"
    by simp
  with l e show ?thesis by blast
qed

section \<open>The queue is first-in first-out\<close>

lemma fold_lpush: "fold lpush xs q = rev xs @ q"
  by (induction xs arbitrary: q) (simp_all add: lpush_def)

lemma rpop_all_rev: "rpop_all (length xs) (rev xs) = xs"
  by (induction xs) (simp_all add: rpop_def)

text \<open>Elements pushed in the order \<open>xs\<close> are popped in the order \<open>xs\<close>.\<close>

lemma queue_fifo: "rpop_all (length xs) (fold lpush xs []) = xs"
  by (simp add: fold_lpush rpop_all_rev)

lemma listen_loop_poll_fails: "listen_loop (Inl e # polls) s = Inl e"
  by simp

section \<open>The default threshold and the version without one\<close>

lemma consume_tx_step_render_inv08:
  "alerts_inv_render s \<Longrightarrow> alerts_inv_render (consume_tx_step_render s)"
proof (cases "tx_queue s" rule: rev_cases)
  case Nil
  assume "alerts_inv_render s"
  with Nil show ?thesis by (simp add: consume_tx_step_render_empty)
next
  case (snoc q t)
  assume "alerts_inv_render s"
  then show ?thesis
    unfolding alerts_inv_render_def
    by (simp add: consume_tx_step_render_alerts [OF snoc] list_all_take alert_of_def)
qed

lemma step_render_inv08: "alerts_inv_render s \<Longrightarrow> alerts_inv_render (step_render a s)"
  by (cases a) (simp_all add: consume_tx_step_render_inv08, simp_all add: alerts_inv_render_def)

lemma run_render_inv08: "alerts_inv_render s \<Longrightarrow> alerts_inv_render (run_render acts s)"
  unfolding run_render_def by (induction acts arbitrary: s) (simp_all add: step_render_inv08)

lemma filter_list_all: "list_all P xs \<Longrightarrow> filter P xs = xs"
  by (induction xs) simp_all

text \<open>
  \<open>get_alerts\<close> of \<open>Web+Redis+render.py\<close> returns the whole cache; in every state that
  program reaches, that is what \<open>get_alerts\<close> of \<open>web+Redis+render1.py\<close> returns for the
  default threshold.
\<close>

lemma get_alerts_render_default:
  "get_alerts None (run_render acts init) =
     (Inr \<lparr>threshold = float_lit (4 / 5),
           alerts = fst (get_alerts_render (run_render acts init))\<rparr>,
      run_render acts init)"
proof -
  have "alerts_inv_render (run_render acts init)"
    by (rule run_render_inv08) (simp add: alerts_inv_render_def init_def)
  then have "filter (\<lambda>a. float_lit (4 / 5) \<le> risk_score a) (latest_alerts (run_render acts init))
               = latest_alerts (run_render acts init)"
    unfolding alerts_inv_render_def by (rule filter_list_all)
  then show ?thesis
    by (simp add: get_alerts_def get_alerts_render_def float_lit_zero float_lit_one float_lit_08)
qed

end
